theory Spec2Isabelle
  imports Complex_Main "HOL-Library.Sublist" "HOL-Library.Word" "HOL-Library.Monad_Syntax"
begin

unbundle bit_operations_syntax

section \<open>Game Dev Vizier: the request handlers of main.py\<close>

text \<open>
  The program is one Python module: a start-up block that resolves a credential and
  builds the completion client, two functions (\<open>analyze_game\<close>, \<open>process_game_analysis\<close>)
  and the Flask route handlers. Every function below carries the name of the source
  function it embeds. Exceptions are values (\<open>Inl\<close>), the module-level bindings and the
  effects of a handler (lines printed, calls sent to the completion service) are fields
  of an explicit state, and what the handlers read from outside the program (the clock,
  the random bytes, the replies of the service) are arguments.
\<close>

subsection \<open>Python values\<close>

text \<open>
  A float is named by the decimal its \<open>repr\<close> prints; the program never computes with
  one. A string is the list of the bytes of its code points in UTF-8, a surrogate code
  point encoded like any other (three bytes, \<open>ED A0 80\<close> for U+D800), so that every
  \<open>str\<close> has one representation, the lone surrogate a JSON escape can give included.
  A dict with string keys is an association list read with \<open>map_of\<close>.
\<close>

datatype py_float = Finite rat | PosInf | NegInf | NaN

datatype pyval =
    PNone
  | PBool bool
  | PInt int
  | PFloat py_float
  | PStr string
  | PList "pyval list"
  | PDict "(string \<times> pyval) list"

text \<open>
  \<open>ValueError\<close> stands for the class and its subclasses, which is what
  \<open>except ValueError\<close> catches; \<open>Exception\<close> for every other subclass of
  \<open>Exception\<close>. The payload is the message \<open>str(e)\<close> prints, for \<open>KeyError\<close> the key.
\<close>

datatype py_exn =
    ValueError string
  | TypeError string
  | IndexError string
  | KeyError string
  | Exception string

fun exn_str :: "py_exn \<Rightarrow> string" where
  "exn_str (ValueError m) = m"
| "exn_str (TypeError m) = m"
| "exn_str (IndexError m) = m"
| "exn_str (KeyError k) = [CHR 0x27] @ k @ [CHR 0x27]"
| "exn_str (Exception m) = m"

fun type_name :: "pyval \<Rightarrow> string" where
  "type_name PNone = ''NoneType''"
| "type_name (PBool b) = ''bool''"
| "type_name (PInt i) = ''int''"
| "type_name (PFloat f) = ''float''"
| "type_name (PStr s) = ''str''"
| "type_name (PList xs) = ''list''"
| "type_name (PDict kvs) = ''dict''"

text \<open>\<open>field in data\<close>, for a string \<open>field\<close> (messages as CPython 3.12 prints them).\<close>

fun py_contains :: "pyval \<Rightarrow> string \<Rightarrow> py_exn + bool" where
  "py_contains (PDict kvs) f = Inr (map_of kvs f \<noteq> None)"
| "py_contains (PList xs) f = Inr (PStr f \<in> set xs)"
| "py_contains (PStr t) f = Inr (sublist f t)"
| "py_contains v f =
     Inl (TypeError (''argument of type '' @ [CHR 0x27] @ type_name v @ [CHR 0x27] @
                     '' is not iterable''))"

text \<open>\<open>data[field]\<close>, for a string \<open>field\<close>.\<close>

fun py_getitem :: "pyval \<Rightarrow> string \<Rightarrow> py_exn + pyval" where
  "py_getitem (PDict kvs) f =
     (case map_of kvs f of None \<Rightarrow> Inl (KeyError f) | Some v \<Rightarrow> Inr v)"
| "py_getitem (PList xs) f =
     Inl (TypeError ''list indices must be integers or slices, not str'')"
| "py_getitem (PStr t) f =
     Inl (TypeError (''string indices must be integers, not '' @ [CHR 0x27] @ ''str'' @
                     [CHR 0x27]))"
| "py_getitem v f =
     Inl (TypeError ([CHR 0x27] @ type_name v @ [CHR 0x27] @
                     '' object is not subscriptable''))"

text \<open>Truth value of \<open>os.environ.get(k)\<close>: \<open>None\<close> and the empty string are false.\<close>

fun truthy :: "string option \<Rightarrow> bool" where
  "truthy None = False"
| "truthy (Some v) = (v \<noteq> [])"

text \<open>\<open>a or b\<close>: the first operand when it is true, the second otherwise.\<close>

definition py_or :: "string option \<Rightarrow> string option \<Rightarrow> string option" where
  "py_or a b = (if truthy a then a else b)"

text \<open>Reading a field of a dict, for stating properties of a response.\<close>

fun field :: "pyval \<Rightarrow> string \<Rightarrow> pyval option" where
  "field (PDict kvs) k = map_of kvs k"
| "field v k = None"

subsection \<open>The completion service and the platform\<close>

record message =
  role :: string
  content :: string

record chat_request =
  model :: string
  messages :: "message list"
  temperature :: rat
  max_tokens :: int

text \<open>The handle built by \<open>OpenAI(api_key=...)\<close>; it holds the credential.\<close>

datatype openai_client = OpenAI string

text \<open>
  What the libraries do is a parameter of the model:
  \<^item> \<open>py_str\<close>: the built-in \<open>str\<close> on a value that is not a string;
  \<^item> \<open>OpenAI_init\<close>: the exception the constructor \<open>OpenAI(api_key=k)\<close> raises, if any;
  \<^item> \<open>stdout_write\<close>: the exception that writing a text to \<open>sys.stdout\<close> raises, if any:
    for a text the encoding of the stream cannot encode a \<open>UnicodeEncodeError\<close>, which is
    a \<open>ValueError\<close>.
\<close>

record platform =
  py_str :: "pyval \<Rightarrow> string"
  OpenAI_init :: "string \<Rightarrow> py_exn option"
  stdout_write :: "string \<Rightarrow> py_exn option"

text \<open>The value an f-string puts in place of \<open>{v}\<close>.\<close>

fun py_format :: "platform \<Rightarrow> pyval \<Rightarrow> string" where
  "py_format pf (PStr t) = t"
| "py_format pf v = py_str pf v"

subsection \<open>Process state\<close>

text \<open>
  \<open>environ\<close>, \<open>api_key\<close> and \<open>client\<close> are the process-wide bindings the handlers read;
  \<open>stdout\<close> collects the lines printed and \<open>sent\<close> the requests handed to the completion
  service, oldest first.
\<close>

record state =
  environ :: "string \<rightharpoonup> string"
  api_key :: "string option"
  client :: "openai_client option"
  stdout :: "string list"
  sent :: "chat_request list"

text \<open>\<open>print(line)\<close>: it raises what the stream raises, and then nothing was written.\<close>

definition print :: "platform \<Rightarrow> string \<Rightarrow> state \<Rightarrow> py_exn + state" where
  "print pf line s =
     (case stdout_write pf line of
        Some e \<Rightarrow> Inl e
      | None \<Rightarrow> Inr (s\<lparr>stdout := stdout s @ [line]\<rparr>))"

definition cross_mark :: string where
  "cross_mark = [CHR 0xE2, CHR 0x9D, CHR 0x8C]"

definition check_mark :: string where
  "check_mark = [CHR 0xE2, CHR 0x9C, CHR 0x85]"

definition test_tube :: string where
  "test_tube = [CHR 0xF0, CHR 0x9F, CHR 0xA7, CHR 0xAA]"

subsection \<open>Start-up (lines 25 to 39)\<close>

definition resolve_api_key :: "(string \<rightharpoonup> string) \<Rightarrow> string option" where
  "resolve_api_key env =
     py_or (py_or (env ''OPENAI_KEY'') (env ''OPENAI_API_KEY'')) (env ''OPENAI_TOKEN'')"

text \<open>
  The \<open>except Exception\<close> clause of lines 37 to 39. Its own \<open>print\<close> is not guarded: an
  exception it raises leaves the module's top level (\<open>Inl\<close>), and the process serves
  no request.
\<close>

definition init_failed :: "platform \<Rightarrow> py_exn \<Rightarrow> state \<Rightarrow> py_exn + state" where
  "init_failed pf e s =
     (case print pf (cross_mark @ '' Failed to initialize OpenAI client: '' @ exn_str e) s of
        Inl e' \<Rightarrow> Inl e'
      | Inr s' \<Rightarrow> Inr (s'\<lparr>client := None\<rparr>))"

definition startup :: "platform \<Rightarrow> (string \<rightharpoonup> string) \<Rightarrow> py_exn + state" where
  "startup pf env =
     (let k = resolve_api_key env;
          s = \<lparr>environ = env, api_key = k, client = None, stdout = [], sent = []\<rparr>
      in (case k of
            None \<Rightarrow>
              init_failed pf
                (ValueError ''OpenAI API key not found in environment variables'') s
          | Some key \<Rightarrow>
              if key = []
              then init_failed pf
                     (ValueError ''OpenAI API key not found in environment variables'') s
              else (case OpenAI_init pf key of
                      Some e \<Rightarrow> init_failed pf e s
                    | None \<Rightarrow>
                        (let s1 = s\<lparr>client := Some (OpenAI key)\<rparr>
                         in case print pf
                                   (check_mark @ '' OpenAI client initialized successfully'')
                                   s1 of
                              Inl e \<Rightarrow> init_failed pf e s1
                            | Inr s2 \<Rightarrow> Inr s2))))"

subsection \<open>The clock and the random identifier\<close>

text \<open>
  A \<open>datetime\<close> as \<open>datetime.now()\<close> returns it. The class keeps \<open>valid_datetime\<close>:
  a date of the calendar between the years 1 and 9999 and a time of day.
\<close>

record datetime =
  year :: nat
  month :: nat
  day :: nat
  hour :: nat
  minute :: nat
  second :: nat
  microsecond :: nat

definition is_leap :: "nat \<Rightarrow> bool" where
  "is_leap y = (y mod 4 = 0 \<and> (y mod 100 \<noteq> 0 \<or> y mod 400 = 0))"

definition days_in_month :: "nat \<Rightarrow> nat \<Rightarrow> nat" where
  "days_in_month y m =
     (if m = 2 then (if is_leap y then 29 else 28)
      else if m \<in> {4, 6, 9, 11} then 30 else 31)"

definition valid_date :: "nat \<Rightarrow> nat \<Rightarrow> nat \<Rightarrow> bool" where
  "valid_date y m d =
     (1 \<le> y \<and> y \<le> 9999 \<and> 1 \<le> m \<and> m \<le> 12 \<and> 1 \<le> d \<and> d \<le> days_in_month y m)"

definition valid_datetime :: "datetime \<Rightarrow> bool" where
  "valid_datetime dt =
     (valid_date (year dt) (month dt) (day dt) \<and> hour dt < 24 \<and> minute dt < 60 \<and>
      second dt < 60 \<and> microsecond dt < 1000000)"

definition digit :: "nat \<Rightarrow> char" where
  "digit d = ''0123456789'' ! d"

text \<open>The decimal digits of a number, without padding.\<close>

fun dec :: "nat \<Rightarrow> string" where
  "dec n = (if n < 10 then [digit n] else dec (n div 10) @ [digit (n mod 10)])"

declare dec.simps [simp del]

text \<open>Padded with zeros on the left to width \<open>w\<close>.\<close>

definition zpad :: "nat \<Rightarrow> nat \<Rightarrow> string" where
  "zpad w n = replicate (w - length (dec n)) CHR ''0'' @ dec n"

definition month_names :: "string list" where
  "month_names = [''January'', ''February'', ''March'', ''April'', ''May'', ''June'',
                  ''July'', ''August'', ''September'', ''October'', ''November'', ''December'']"

text \<open>The directive B of strftime in the C locale, which a Python process keeps for LC_TIME.\<close>

definition month_name :: "nat \<Rightarrow> string" where
  "month_name m = month_names ! (m - 1)"

text \<open>The directive I of strftime: the hour on the 12-hour clock.\<close>

definition hour12 :: "nat \<Rightarrow> nat" where
  "hour12 h = (if h mod 12 = 0 then 12 else h mod 12)"

text \<open>
  \<open>strftime\<close> with the pattern of line 91: month name, day (two digits), a comma, the
  year, the word at, hour on the 12-hour clock and minute (two digits each), AM or PM.
  The year is printed as the C library prints it, without padding (glibc; the padded form
  of later Python versions agrees from the year 1000 on).
\<close>

definition strftime_generated :: "datetime \<Rightarrow> string" where
  "strftime_generated dt =
     month_name (month dt) @ '' '' @ zpad 2 (day dt) @ '', '' @ dec (year dt) @ '' at '' @
     zpad 2 (hour12 (hour dt)) @ '':'' @ zpad 2 (minute dt) @ '' '' @
     (if hour dt < 12 then ''AM'' else ''PM'')"

text \<open>\<open>datetime.isoformat()\<close> of a naive datetime.\<close>

definition isoformat :: "datetime \<Rightarrow> string" where
  "isoformat dt =
     zpad 4 (year dt) @ ''-'' @ zpad 2 (month dt) @ ''-'' @ zpad 2 (day dt) @ ''T'' @
     zpad 2 (hour dt) @ '':'' @ zpad 2 (minute dt) @ '':'' @ zpad 2 (second dt) @
     (if microsecond dt = 0 then [] else ''.'' @ zpad 6 (microsecond dt))"

text \<open>
  \<open>uuid.uuid4()\<close> on the 16 bytes \<open>os.urandom\<close> returned, read as one 128-bit number:
  the variant and version bits are overwritten. \<open>str\<close> of a UUID is its 32 hexadecimal
  digits in groups of 8, 4, 4, 4 and 12.
\<close>

definition uuid4 :: "128 word \<Rightarrow> 128 word" where
  "uuid4 r =
     (((r AND NOT (push_bit 48 0xc000)) OR push_bit 48 0x8000)
        AND NOT (push_bit 64 0xf000)) OR push_bit 76 4"

definition hex32 :: "128 word \<Rightarrow> string" where
  "hex32 w =
     map (\<lambda>i. ''0123456789abcdef'' ! unat (drop_bit (4 * (31 - i)) w AND 15)) [0..<32]"

definition str_uuid :: "128 word \<Rightarrow> string" where
  "str_uuid u =
     (let h = hex32 u
      in take 8 h @ ''-'' @ take 4 (drop 8 h) @ ''-'' @ take 4 (drop 12 h) @ ''-'' @
         take 4 (drop 16 h) @ ''-'' @ drop 20 h)"

text \<open>
  What one request reads from outside the program: the clock, the random bytes, and the
  outcome of \<open>client.chat.completions.create\<close>, an exception or the list of
  \<open>choices[i].message.content\<close> of the reply (each a string or \<open>None\<close>).
\<close>

record inputs =
  now :: datetime
  urandom :: "128 word"
  chat_create :: "openai_client \<Rightarrow> chat_request \<Rightarrow> py_exn + string option list"

subsection \<open>analyze_game\<close>

definition not_initialized :: string where
  "not_initialized =
     ''OpenAI client is not initialized. Please check your API key and'' @
     '' environment variables.''"

definition prompt_head :: string where
  "prompt_head =
     ''\<newline>'' @
     ''    You are an expert video game designer and royal vizier. Using the'' @
     '' game summary given, share one strong point about it, three ways it'' @
     '' could be improved, and three ways the game idea could be made more'' @
     '' marketable and have more mass appeal. Be sure to give specific,'' @
     '' actionable recommendations and examples especially for how it could'' @
     '' be more marketable. Sign off with '' @
     [CHR 0x22] @
     ''Your humble vizier'' @
     [CHR 0x22] @
     ''.\<newline>'' @
     ''\<newline>'' @
     ''    Game Summary:\<newline>'' @
     ''    ''"

definition prompt_tail :: string where
  "prompt_tail =
     ''\<newline>'' @
     ''\<newline>'' @
     ''    IMPORTANT: Use professional consulting language with perfect'' @
     '' spelling and grammar and a royal vizier style as if talking to a'' @
     '' king or queen. Format your response with clear sections using'' @
     '' markdown headers.\<newline>'' @
     ''    ''"

definition system_content :: string where
  "system_content =
     ''You are a top-tier game dev consultant and royal vizier who delivers'' @
     '' precise, actionable insights with perfect spelling and grammar.''"

definition build_request :: "platform \<Rightarrow> pyval \<Rightarrow> chat_request" where
  "build_request pf business_data =
     \<lparr>model = ''gpt-4'',
      messages =
        [\<lparr>role = ''system'', content = system_content\<rparr>,
         \<lparr>role = ''user'',
          content = prompt_head @ py_format pf business_data @ prompt_tail\<rparr>],
      temperature = 85 / 100,
      max_tokens = 2000\<rparr>"

fun opt_str :: "string option \<Rightarrow> pyval" where
  "opt_str None = PNone"
| "opt_str (Some t) = PStr t"

definition analyze_game ::
  "platform \<Rightarrow> inputs \<Rightarrow> pyval \<Rightarrow> state \<Rightarrow> (py_exn + pyval) \<times> state" where
  "analyze_game pf inp business_data s =
     (case client s of
        None \<Rightarrow> (Inr (PStr not_initialized), s)
      | Some c \<Rightarrow>
          (let req = build_request pf business_data;
               s' = s\<lparr>sent := sent s @ [req]\<rparr>
           in case chat_create inp c req of
                Inl e \<Rightarrow> (Inl e, s')
              | Inr choices \<Rightarrow>
                  (case choices of
                     [] \<Rightarrow> (Inl (IndexError ''list index out of range''), s')
                   | ch # rest \<Rightarrow> (Inr (opt_str ch), s'))))"

subsection \<open>process_game_analysis\<close>

definition required_fields :: "string list" where
  "required_fields = [''business_name'', ''game_data'']"

text \<open>
  The loop over \<open>required_fields\<close>; \<open>or\<close> evaluates \<open>data[field]\<close> only when the key is
  there.
\<close>

fun validate_fields :: "pyval \<Rightarrow> string list \<Rightarrow> py_exn + unit" where
  "validate_fields data [] = Inr ()"
| "validate_fields data (f # fs) =
     (case py_contains data f of
        Inl e \<Rightarrow> Inl e
      | Inr present \<Rightarrow>
          if \<not> present then Inl (ValueError (''Missing required field: '' @ f))
          else (case py_getitem data f of
                  Inl e \<Rightarrow> Inl e
                | Inr v \<Rightarrow>
                    if v = PNone then Inl (ValueError (''Missing required field: '' @ f))
                    else validate_fields data fs))"

definition process_game_analysis ::
  "platform \<Rightarrow> inputs \<Rightarrow> pyval \<Rightarrow> state \<Rightarrow> (py_exn + pyval) \<times> state" where
  "process_game_analysis pf inp data s =
     (case validate_fields data required_fields of
        Inl e \<Rightarrow> (Inl e, s)
      | Inr u \<Rightarrow>
     (case py_getitem data ''business_name'' of
        Inl e \<Rightarrow> (Inl e, s)
      | Inr business_name \<Rightarrow>
     (case py_getitem data ''game_data'' of
        Inl e \<Rightarrow> (Inl e, s)
      | Inr game_data \<Rightarrow>
     (case print pf (''Generating analysis for '' @ py_format pf business_name @ ''...'') s of
        Inl e \<Rightarrow> (Inl e, s)
      | Inr s1 \<Rightarrow>
     (case analyze_game pf inp game_data s1 of
        (Inl e, s2) \<Rightarrow> (Inl e, s2)
      | (Inr analysis, s2) \<Rightarrow>
          (let report_id = take 8 (str_uuid (uuid4 (urandom inp)))
           in (Inr (PDict
                 [(''success'', PBool True),
                  (''message'', PStr ''Game analysis completed successfully!''),
                  (''report_id'', PStr report_id),
                  (''business_name'', business_name),
                  (''analysis'', analysis),
                  (''generated_at'', PStr (strftime_generated (now inp)))]),
               s2)))))))"

subsection \<open>The route handlers\<close>

datatype body = Json pyval | Html_test_page

record http_response =
  status :: nat
  body :: body

definition jsonify :: "nat \<Rightarrow> pyval \<Rightarrow> http_response" where
  "jsonify code v = \<lparr>status = code, body = Json v\<rparr>"

text \<open>
  A view function returns a response (\<open>Inr\<close>) or an exception leaves it (\<open>Inl\<close>); what
  Flask answers then is not this program's.

  The two \<open>except\<close> clauses shared by \<open>api_analyze_game\<close> and \<open>test_endpoint\<close>;
  \<open>label\<close> is the text that differs in the line they print. The \<open>print\<close> of the second
  clause is not guarded.
\<close>

fun handle_exn ::
  "platform \<Rightarrow> string \<Rightarrow> py_exn \<Rightarrow> state \<Rightarrow> (py_exn + http_response) \<times> state" where
  "handle_exn pf label (ValueError m) s =
     (Inr (jsonify 400 (PDict [(''error'', PStr m)])), s)"
| "handle_exn pf label e s =
     (case print pf (cross_mark @ '' Error in '' @ label @ '': '' @ exn_str e) s of
        Inl e' \<Rightarrow> (Inl e', s)
      | Inr s' \<Rightarrow> (Inr (jsonify 500 (PDict [(''error'', PStr (exn_str e))])), s'))"

definition home :: "state \<Rightarrow> (py_exn + http_response) \<times> state" where
  "home s =
     (let openai_key = py_or (environ s ''OPENAI_KEY'') (environ s ''OPENAI_API_KEY'')
      in (Inr (jsonify 200 (PDict
            [(''message'', PStr ''Game Dev Vizier API is running!''),
             (''status'', PStr ''healthy''),
             (''endpoints'', PDict
                [(''health'', PStr ''/api/health''),
                 (''analyze'', PStr ''/api/analyze-game (POST)''),
                 (''test'', PStr ''/api/test (POST)'')]),
             (''environment_check'', PDict
                [(''openai_key_set'', PBool (truthy openai_key)),
                 (''client_ready'', PBool (client s \<noteq> None))])])),
          s))"

text \<open>\<open>request_json\<close> is what evaluating \<open>request.json\<close> gives: a value or an exception.\<close>

definition api_analyze_game ::
  "platform \<Rightarrow> inputs \<Rightarrow> py_exn + pyval \<Rightarrow> state \<Rightarrow> (py_exn + http_response) \<times> state"
  where
  "api_analyze_game pf inp request_json s =
     (case request_json of
        Inl e \<Rightarrow> handle_exn pf ''API'' e s
      | Inr data \<Rightarrow>
          if data = PNone
          then (Inr (jsonify 400 (PDict [(''error'', PStr ''No JSON data provided'')])), s)
          else (case process_game_analysis pf inp data s of
                  (Inl e, s') \<Rightarrow> handle_exn pf ''API'' e s'
                | (Inr response_data, s') \<Rightarrow> (Inr (jsonify 200 response_data), s')))"

definition health_check :: "inputs \<Rightarrow> state \<Rightarrow> (py_exn + http_response) \<times> state" where
  "health_check inp s =
     (Inr (jsonify 200 (PDict
        [(''status'', PStr ''healthy''),
         (''timestamp'', PStr (isoformat (now inp))),
         (''service'', PStr ''Game Dev Vizier''),
         (''environment'', PDict [(''openai_configured'', PBool (client s \<noteq> None))])])),
      s)"

definition sample_game_data :: string where
  "sample_game_data =
     ''\<newline>'' @
     ''        A visual novel about a detective who solves mysteries about a'' @
     '' team of thieves using his unique psychic abilities. The game'' @
     '' features a rich storyline, engaging puzzles, and a cast of memorable'' @
     '' characters. The game is set in a Victorian-era city and explores'' @
     '' themes of mystery, suspense, and the psychic powers that must be'' @
     '' used and defeated. The game is designed to be played on PC and'' @
     '' mobile devices.\<newline>'' @
     ''        ''"

definition sample_data :: pyval where
  "sample_data =
     PDict
       [(''business_name'', PStr ''Sample Game Idea''),
        (''game_data'', PStr sample_game_data)]"

definition test_endpoint ::
  "platform \<Rightarrow> inputs \<Rightarrow> state \<Rightarrow> (py_exn + http_response) \<times> state" where
  "test_endpoint pf inp s =
     (case print pf (test_tube @ '' Running test with sample data...'') s of
        Inl e \<Rightarrow> handle_exn pf ''test endpoint'' e s
      | Inr s0 \<Rightarrow>
          (case process_game_analysis pf inp sample_data s0 of
             (Inl e, s') \<Rightarrow> handle_exn pf ''test endpoint'' e s'
           | (Inr response_data, s') \<Rightarrow> (Inr (jsonify 200 response_data), s')))"

definition test_page :: "state \<Rightarrow> (py_exn + http_response) \<times> state" where
  "test_page s = (Inr \<lparr>status = 200, body = Html_test_page\<rparr>, s)"

text \<open>One request to the application, and a run of the process over a list of them.\<close>

datatype request =
    GET_root
  | POST_analyze_game "py_exn + pyval"
  | GET_health
  | POST_test
  | GET_test_page

fun serve ::
  "platform \<Rightarrow> inputs \<Rightarrow> request \<Rightarrow> state \<Rightarrow> (py_exn + http_response) \<times> state" where
  "serve pf inp GET_root s = home s"
| "serve pf inp (POST_analyze_game rj) s = api_analyze_game pf inp rj s"
| "serve pf inp GET_health s = health_check inp s"
| "serve pf inp POST_test s = test_endpoint pf inp s"
| "serve pf inp GET_test_page s = test_page s"

fun serve_all :: "platform \<Rightarrow> (inputs \<times> request) list \<Rightarrow> state \<Rightarrow> state" where
  "serve_all pf [] s = s"
| "serve_all pf ((inp, rq) # rest) s = serve_all pf rest (snd (serve pf inp rq s))"

subsection \<open>Vocabulary of the properties\<close>

text \<open>A key of the request body that is absent or bound to \<open>None\<close> (JSON null).\<close>

definition field_missing :: "(string \<times> pyval) list \<Rightarrow> string \<Rightarrow> bool" where
  "field_missing kvs f = (case map_of kvs f of None \<Rightarrow> True | Some v \<Rightarrow> v = PNone)"


text \<open>
  The module-level bindings a handler can read: \<open>os.environ\<close>, \<open>api_key\<close> and \<open>client\<close>.
  The lines printed and the requests sent are effects, not bindings.
\<close>

definition bindings ::
  "state \<Rightarrow> (string \<rightharpoonup> string) \<times> string option \<times> openai_client option" where
  "bindings s = (environ s, api_key s, client s)"

text \<open>
  A standard output in UTF-8 with the error handler \<open>strict\<close>, the stream of the examples.
  Every text can be written but one that holds a surrogate code point (\<open>ED\<close>, then a byte
  from \<open>A0\<close> to \<open>BF\<close>, then one more); the message of the \<open>UnicodeEncodeError\<close> names the
  first run of surrogates by its position in code points, and the code point when the
  run is a single one.
\<close>

definition is_cont :: "char \<Rightarrow> bool" where
  "is_cont c = (0x80 \<le> (of_char c :: nat) \<and> (of_char c :: nat) < 0xC0)"

fun is_surrogate :: "string \<Rightarrow> bool" where
  "is_surrogate (a # b # c # rest) =
     (a = CHR 0xED \<and> 0xA0 \<le> (of_char b :: nat) \<and> (of_char b :: nat) < 0xC0)"
| "is_surrogate t = False"

fun first_surrogate :: "nat \<Rightarrow> string \<Rightarrow> (nat \<times> string) option" where
  "first_surrogate p [] = None"
| "first_surrogate p (c # cs) =
     (if is_surrogate (c # cs) then Some (p, c # cs)
      else first_surrogate (if is_cont c then p else Suc p) cs)"

fun surrogate_run :: "string \<Rightarrow> nat" where
  "surrogate_run (a # b # c # rest) =
     (if is_surrogate (a # b # c # rest) then Suc (surrogate_run rest) else 0)"
| "surrogate_run t = 0"

fun surrogate_code :: "string \<Rightarrow> nat" where
  "surrogate_code (a # b # c # rest) =
     0xD000 + (of_char b - 0x80) * 64 + (of_char c - 0x80)"
| "surrogate_code t = 0"

definition hex4 :: "nat \<Rightarrow> string" where
  "hex4 n =
     map (\<lambda>d. ''0123456789abcdef'' ! d)
       [n div 4096 mod 16, n div 256 mod 16, n div 16 mod 16, n mod 16]"

definition utf8_stdout :: "string \<Rightarrow> py_exn option" where
  "utf8_stdout t =
     (case first_surrogate 0 t of
        None \<Rightarrow> None
      | Some (p, u) \<Rightarrow>
          Some (ValueError
            ([CHR 0x27] @ ''utf-8'' @ [CHR 0x27] @ '' codec can'' @ [CHR 0x27] @
             ''t encode '' @
             (if surrogate_run u = 1
              then ''character '' @ [CHR 0x27, CHR 0x5C] @ ''u'' @ hex4 (surrogate_code u) @
                   [CHR 0x27] @ '' in position '' @ dec p
              else ''characters in position '' @ dec p @ ''-'' @
                   dec (p + surrogate_run u - 1)) @
             '': surrogates not allowed'')))"

text \<open>Concrete surroundings, for evaluating the handlers on examples.\<close>

definition demo_platform :: platform where
  "demo_platform =
     \<lparr>py_str = type_name, OpenAI_init = (\<lambda>k. None), stdout_write = utf8_stdout\<rparr>"

definition demo_inputs :: inputs where
  "demo_inputs =
     \<lparr>now = \<lparr>year = 2026, month = 11, day = 4, hour = 14, minute = 5, second = 9,
              microsecond = 0\<rparr>,
      urandom = 0x0123456789abcdef0123456789abcdef,
      chat_create = (\<lambda>c r. Inr [Some ''Your humble vizier''])\<rparr>"

text \<open>
  The process as start-up leaves it on that platform: with no credential in the
  environment, with OPENAI_API_KEY, and with OPENAI_TOKEN alone, set to the empty string.
\<close>

definition demo_unconfigured :: state where
  "demo_unconfigured =
     \<lparr>environ = Map.empty, api_key = None, client = None,
      stdout = [cross_mark @ '' Failed to initialize OpenAI client: '' @
                ''OpenAI API key not found in environment variables''],
      sent = []\<rparr>"

definition demo_configured :: state where
  "demo_configured =
     \<lparr>environ = [''OPENAI_API_KEY'' \<mapsto> ''sk-demo''], api_key = Some ''sk-demo'',
      client = Some (OpenAI ''sk-demo''),
      stdout = [check_mark @ '' OpenAI client initialized successfully''],
      sent = []\<rparr>"

definition demo_empty_token :: state where
  "demo_empty_token =
     \<lparr>environ = [''OPENAI_TOKEN'' \<mapsto> ''''], api_key = Some '''', client = None,
      stdout = [cross_mark @ '' Failed to initialize OpenAI client: '' @
                ''OpenAI API key not found in environment variables''],
      sent = []\<rparr>"

text \<open>
  Two request bodies: the scenario of the specification, and the same with the lone
  surrogate U+D800 (the JSON string \<open>"\ud800"\<close>) for a name.
\<close>

definition demo_fields :: "(string \<times> pyval) list" where
  "demo_fields =
     [(''business_name'', PStr ''Space Tactics''),
      (''game_data'',
       PStr ''A turn-based tactics game set on a derelict space station.'')]"

definition demo_request :: pyval where
  "demo_request = PDict demo_fields"


text \<open>
  The body of a request whose JSON does not parse: \<open>request.json\<close> raises werkzeug's
  \<open>BadRequest\<close>, an \<open>Exception\<close> that is not a \<open>ValueError\<close>, with this text for \<open>str(e)\<close>.
\<close>

definition bad_request :: py_exn where
  "bad_request =
     Exception (''400 Bad Request: The browser (or proxy) sent a request that this '' @
                ''server could not understand.'')"

text \<open>
  Reading a timestamp back, for the pattern of line 91 taken literally: a full month
  name, a space, the day in two digits, a comma and a space, the year in four digits,
  the word at between spaces, the hour of the 12-hour clock and the minute in two digits
  each with a colon between, a space, and AM or PM at the end of the string. The result
  is the date and time read, when they are a date of the calendar and a time of day.
\<close>

definition digit_val :: "char \<Rightarrow> nat option" where
  "digit_val c =
     map_of [(CHR ''0'', 0), (CHR ''1'', 1), (CHR ''2'', 2), (CHR ''3'', 3), (CHR ''4'', 4),
             (CHR ''5'', 5), (CHR ''6'', 6), (CHR ''7'', 7), (CHR ''8'', 8), (CHR ''9'', 9)] c"

fun read_nat :: "nat \<Rightarrow> nat \<Rightarrow> string \<Rightarrow> (nat \<times> string) option" where
  "read_nat 0 acc s = Some (acc, s)"
| "read_nat (Suc k) acc [] = None"
| "read_nat (Suc k) acc (c # cs) =
     (case digit_val c of None \<Rightarrow> None | Some d \<Rightarrow> read_nat k (10 * acc + d) cs)"

definition expect :: "string \<Rightarrow> string \<Rightarrow> string option" where
  "expect p s = (if prefix p s then Some (drop (length p) s) else None)"

definition read_month :: "string \<Rightarrow> (nat \<times> string) option" where
  "read_month s =
     (case find (\<lambda>m. prefix (month_name m) s) [1, 2, 3, 4, 5, 6, 7, 8, 9, 10, 11, 12] of
        None \<Rightarrow> None
      | Some m \<Rightarrow> Some (m, drop (length (month_name m)) s))"

definition read_ampm :: "string \<Rightarrow> bool option" where
  "read_ampm s = (if s = ''AM'' then Some False else if s = ''PM'' then Some True else None)"

definition parse_generated_at :: "string \<Rightarrow> datetime option" where
  "parse_generated_at s =
     do {
       (mo, s1) \<leftarrow> read_month s;
       s2 \<leftarrow> expect '' '' s1;
       (d, s3) \<leftarrow> read_nat 2 0 s2;
       s4 \<leftarrow> expect '', '' s3;
       (y, s5) \<leftarrow> read_nat 4 0 s4;
       s6 \<leftarrow> expect '' at '' s5;
       (h, s7) \<leftarrow> read_nat 2 0 s6;
       s8 \<leftarrow> expect '':'' s7;
       (mi, s9) \<leftarrow> read_nat 2 0 s8;
       s10 \<leftarrow> expect '' '' s9;
       pm \<leftarrow> read_ampm s10;
       if valid_date y mo d \<and> 1 \<le> h \<and> h \<le> 12 \<and> mi < 60
       then Some \<lparr>year = y, month = mo, day = d,
                  hour = h mod 12 + (if pm then 12 else 0), minute = mi,
                  second = 0, microsecond = 0\<rparr>
       else None
     }"

section \<open>Properties\<close>

subsection \<open>Printing\<close>


lemma print_Inr:
  "print pf l s = Inr s' \<Longrightarrow> stdout_write pf l = None \<and> s' = s\<lparr>stdout := stdout s @ [l]\<rparr>"
  by (auto simp: print_def split: option.splits)

lemma print_fields:
  assumes "print pf l s = Inr s'"
  shows "environ s' = environ s" "api_key s' = api_key s" "client s' = client s"
    "sent s' = sent s"
  using print_Inr [OF assms] by simp_all

lemma is_surrogate_head: "is_surrogate t \<Longrightarrow> CHR 0xED \<in> set t"
  by (cases t rule: is_surrogate.cases) simp_all

lemma first_surrogate_none: "CHR 0xED \<notin> set t \<Longrightarrow> first_surrogate p t = None"
proof (induction t arbitrary: p)
  case Nil
  then show ?case by simp
next
  case (Cons c cs)
  from Cons.prems have "\<not> is_surrogate (c # cs)" using is_surrogate_head by blast
  moreover from Cons.prems have "CHR 0xED \<notin> set cs" by simp
  ultimately show ?case using Cons.IH by simp
qed

lemma utf8_stdout_plain: "CHR 0xED \<notin> set t \<Longrightarrow> utf8_stdout t = None"
  by (simp add: utf8_stdout_def first_surrogate_none)



text \<open>The example processes are what start-up gives.\<close>

lemma startup_demo_unconfigured: "startup demo_platform Map.empty = Inr demo_unconfigured"
  by (simp add: startup_def resolve_api_key_def py_or_def init_failed_def Let_def
      demo_platform_def demo_unconfigured_def print_def utf8_stdout_plain cross_mark_def)

lemma startup_demo_configured:
  "startup demo_platform [''OPENAI_API_KEY'' \<mapsto> ''sk-demo''] = Inr demo_configured"
  by (simp add: startup_def resolve_api_key_def py_or_def init_failed_def Let_def
      demo_platform_def demo_configured_def print_def utf8_stdout_plain check_mark_def)

lemma startup_demo_empty_token:
  "startup demo_platform [''OPENAI_TOKEN'' \<mapsto> ''''] = Inr demo_empty_token"
  by (simp add: startup_def resolve_api_key_def py_or_def init_failed_def Let_def
      demo_platform_def demo_empty_token_def print_def utf8_stdout_plain cross_mark_def)


lemma client_demo_configured: "client demo_configured = Some (OpenAI ''sk-demo'')"
  by (simp add: demo_configured_def)

lemma sent_demo_configured: "sent demo_configured = []"
  by (simp add: demo_configured_def)

subsection \<open>Validation of the request body\<close>

lemma validate_dict:
  "validate_fields (PDict kvs) required_fields =
     (if field_missing kvs ''business_name''
      then Inl (ValueError ''Missing required field: business_name'')
      else if field_missing kvs ''game_data''
      then Inl (ValueError ''Missing required field: game_data'')
      else Inr ())"
  by (auto simp: required_fields_def field_missing_def split: option.splits)

text \<open>
  Claim C2. For a request body that is a mapping in which \<open>business_name\<close> or
  \<open>game_data\<close> is absent or null, POST /api/analyze-game answers 400 with the body
  \<open>{"error": "Missing required field: <field>"}\<close>, where the field named is the first
  missing one in the order business_name, game_data; the state is returned as it was, so
  no request was handed to the completion service.
\<close>

theorem api_analyze_game_missing_field:
  assumes "field_missing kvs ''business_name'' \<or> field_missing kvs ''game_data''"
  shows "api_analyze_game pf inp (Inr (PDict kvs)) s =
     (Inr \<lparr>status = 400,
           body = Json (PDict [(''error'', PStr (''Missing required field: '' @
                (if field_missing kvs ''business_name'' then ''business_name''
                 else ''game_data'')))])\<rparr>, s)
     \<and> sent (snd (api_analyze_game pf inp (Inr (PDict kvs)) s)) = sent s"
  using assms
  by (auto simp: api_analyze_game_def process_game_analysis_def validate_dict jsonify_def)

theorem api_analyze_game_missing_field_witness:
  "field_missing [(''business_name'', PStr ''X'')] ''game_data'' \<and>
   api_analyze_game demo_platform demo_inputs
       (Inr (PDict [(''business_name'', PStr ''X'')])) demo_configured =
     (Inr \<lparr>status = 400,
           body = Json (PDict [(''error'', PStr ''Missing required field: game_data'')])\<rparr>,
      demo_configured)"
  using api_analyze_game_missing_field
    [of "[(''business_name'', PStr ''X'')]" demo_platform demo_inputs demo_configured]
  by (simp add: field_missing_def)

text \<open>Only a dict passes the validation loop: on any other value \<open>in\<close> or the subscript raises.\<close>

lemma validate_only_dict:
  assumes "validate_fields data required_fields = Inr ()"
  shows "\<exists>kvs. data = PDict kvs \<and> \<not> field_missing kvs ''business_name'' \<and>
               \<not> field_missing kvs ''game_data''"
proof (cases data)
  case (PDict kvs)
  with assms show ?thesis by (auto simp: validate_dict split: if_splits)
qed (use assms in \<open>auto simp: required_fields_def split: if_splits\<close>)

lemma present_lookup:
  "\<not> field_missing kvs f \<Longrightarrow> \<exists>v. map_of kvs f = Some v \<and> v \<noteq> PNone"
  by (auto simp: field_missing_def split: option.splits)


subsection \<open>The request body that is not JSON\<close>

text \<open>
  When \<open>request.json\<close> evaluates to \<open>None\<close> (a body that is the JSON \<open>null\<close>), the check of
  line 120 answers 400 with \<open>{"error": "No JSON data provided"}\<close>.
\<close>

lemma api_analyze_game_null_body:
  "api_analyze_game pf inp (Inr PNone) s =
     (Inr \<lparr>status = 400, body = Json (PDict [(''error'', PStr ''No JSON data provided'')])\<rparr>,
      s)"
  by (simp add: api_analyze_game_def jsonify_def)

text \<open>
  When \<open>request.json\<close> raises anything but a \<open>ValueError\<close>, the second \<open>except\<close> clause
  answers 500 with the text of the exception, once its line is printed.
\<close>

lemma api_analyze_game_request_json_raises:
  assumes "stdout_write pf (cross_mark @ '' Error in API: '' @ m) = None"
  shows "api_analyze_game pf inp (Inl (Exception m)) s =
     (Inr \<lparr>status = 500, body = Json (PDict [(''error'', PStr m)])\<rparr>,
      s\<lparr>stdout := stdout s @ [cross_mark @ '' Error in API: '' @ m]\<rparr>)"
  using assms by (simp add: api_analyze_game_def jsonify_def print_def)

text \<open>
  Claim C4, on the code. For a body that does not parse as JSON, \<open>request.json\<close> does not
  evaluate to \<open>None\<close>: it raises \<open>BadRequest\<close>. The check of line 120 is not reached, and
  the handler answers 500 with the text of the exception, not 400 with
  \<open>{"error": "No JSON data provided"}\<close>.
\<close>

theorem api_analyze_game_unparsable_body:
  "fst (api_analyze_game demo_platform demo_inputs (Inl bad_request) demo_configured) =
     Inr \<lparr>status = 500,
          body = Json (PDict [(''error'',
            PStr (''400 Bad Request: The browser (or proxy) sent a request that this '' @
                  ''server could not understand.''))])\<rparr>"
  by (simp add: bad_request_def api_analyze_game_def jsonify_def print_def demo_platform_def
      utf8_stdout_plain cross_mark_def)

subsection \<open>The path of an accepted request\<close>

lemma process_valid_dict:
  assumes "map_of kvs ''business_name'' = Some bn" "bn \<noteq> PNone"
    and "map_of kvs ''game_data'' = Some gd" "gd \<noteq> PNone"
  shows "process_game_analysis pf inp (PDict kvs) s =
     (case print pf (''Generating analysis for '' @ py_format pf bn @ ''...'') s of
        Inl e \<Rightarrow> (Inl e, s)
      | Inr s1 \<Rightarrow>
          (case analyze_game pf inp gd s1 of
             (Inl e, s2) \<Rightarrow> (Inl e, s2)
           | (Inr analysis, s2) \<Rightarrow>
               (Inr (PDict
                  [(''success'', PBool True),
                   (''message'', PStr ''Game analysis completed successfully!''),
                   (''report_id'', PStr (take 8 (str_uuid (uuid4 (urandom inp))))),
                   (''business_name'', bn),
                   (''analysis'', analysis),
                   (''generated_at'', PStr (strftime_generated (now inp)))]), s2)))"
  using assms
  by (simp add: process_game_analysis_def validate_dict field_missing_def Let_def
      split: prod.splits sum.splits)

text \<open>
  When \<open>process_game_analysis\<close> returns a response, the request was a dict with both
  fields, the line of line 79 was printed, \<open>analyze_game\<close> returned the analysis, and
  the response is the dict of line 85.
\<close>

lemma process_returns:
  assumes "process_game_analysis pf inp data s = (Inr r, s')"
  shows "\<exists>kvs bn gd s1 analysis.
           data = PDict kvs \<and> map_of kvs ''business_name'' = Some bn \<and> bn \<noteq> PNone \<and>
           map_of kvs ''game_data'' = Some gd \<and> gd \<noteq> PNone \<and>
           print pf (''Generating analysis for '' @ py_format pf bn @ ''...'') s = Inr s1 \<and>
           analyze_game pf inp gd s1 = (Inr analysis, s') \<and>
           r = PDict
             [(''success'', PBool True),
              (''message'', PStr ''Game analysis completed successfully!''),
              (''report_id'', PStr (take 8 (str_uuid (uuid4 (urandom inp))))),
              (''business_name'', bn),
              (''analysis'', analysis),
              (''generated_at'', PStr (strftime_generated (now inp)))]"
proof -
  have v: "validate_fields data required_fields = Inr ()"
    using assms
    by (cases "validate_fields data required_fields") (simp_all add: process_game_analysis_def)
  then obtain kvs where d: "data = PDict kvs"
    and nb: "\<not> field_missing kvs ''business_name''"
    and ng: "\<not> field_missing kvs ''game_data''"
    using validate_only_dict by blast
  from nb obtain bn where bn: "map_of kvs ''business_name'' = Some bn" "bn \<noteq> PNone"
    using present_lookup by blast
  from ng obtain gd where gd: "map_of kvs ''game_data'' = Some gd" "gd \<noteq> PNone"
    using present_lookup by blast
  show ?thesis
    using assms unfolding d process_valid_dict [OF bn gd]
    by (auto simp: bn gd split: prod.splits sum.splits)
qed

lemma validate_demo_request: "validate_fields demo_request required_fields = Inr ()"
  by (simp add: demo_request_def demo_fields_def validate_dict field_missing_def)

lemma demo_returns:
  "\<exists>r s'. process_game_analysis demo_platform demo_inputs demo_request demo_configured =
            (Inr r, s')"
  unfolding demo_request_def demo_fields_def
  by (subst process_valid_dict [where bn = "PStr ''Space Tactics''"
        and gd = "PStr ''A turn-based tactics game set on a derelict space station.''"])
     (simp_all add: analyze_game_def client_demo_configured demo_inputs_def Let_def
        print_def demo_platform_def utf8_stdout_plain)


subsection \<open>Degraded mode\<close>




subsection \<open>The call to the completion service\<close>

text \<open>
  Claim C5. When the client is configured, \<open>analyze_game\<close> hands the completion service
  exactly one request: model \<open>gpt-4\<close>, two messages (the fixed system message, then a
  user message that is the prompt template with the description in its place; for a
  string, \<open>py_format\<close> is the string itself), temperature 0.85 and \<open>max_tokens\<close> 2000. What
  it returns or raises is decided by the reply to that request.
\<close>

theorem analyze_game_request:
  assumes "client s = Some c"
  shows "\<exists>req.
           sent (snd (analyze_game pf inp business_data s)) = sent s @ [req]
         \<and> model req = ''gpt-4''
         \<and> messages req =
             [\<lparr>role = ''system'', content = system_content\<rparr>,
              \<lparr>role = ''user'',
               content = prompt_head @ py_format pf business_data @ prompt_tail\<rparr>]
         \<and> length (messages req) = 2
         \<and> temperature req = 85 / 100
         \<and> max_tokens req = 2000
         \<and> fst (analyze_game pf inp business_data s) =
             (case chat_create inp c req of
                Inl e \<Rightarrow> Inl e
              | Inr [] \<Rightarrow> Inl (IndexError ''list index out of range'')
              | Inr (ch # rest) \<Rightarrow> Inr (opt_str ch))"
  using assms
  by (intro exI [of _ "build_request pf business_data"])
     (simp add: analyze_game_def build_request_def Let_def split: sum.splits list.splits)

theorem analyze_game_request_witness:
  "client demo_configured = Some (OpenAI ''sk-demo'') \<and>
   (\<exists>req. sent (snd (analyze_game demo_platform demo_inputs (PStr ''A maze game'')
                       demo_configured)) = [req]
        \<and> model req = ''gpt-4''
        \<and> map role (messages req) = [''system'', ''user'']
        \<and> content (messages req ! 1) = prompt_head @ ''A maze game'' @ prompt_tail
        \<and> temperature req = 85 / 100
        \<and> max_tokens req = 2000)"
  using analyze_game_request [where s = demo_configured and c = "OpenAI ''sk-demo''"
      and pf = demo_platform and inp = demo_inputs and business_data = "PStr ''A maze game''"]
  by (auto simp: client_demo_configured sent_demo_configured)

subsection \<open>The response\<close>

lemma length_hex32: "length (hex32 w) = 32"
  by (simp add: hex32_def)

lemma report_id_prefix: "take 8 (str_uuid u) = take 8 (hex32 u)"
  by (simp add: str_uuid_def Let_def length_hex32)

lemma nibble_less: "unat ((w :: 128 word) AND 15) < 16"
proof -
  have "w AND 15 \<le> 15" by (rule word_and_le1)
  then have "unat (w AND 15) \<le> unat (15 :: 128 word)" by (simp add: word_le_nat_alt)
  then show ?thesis by simp
qed

lemma hex32_chars: "set (hex32 w) \<subseteq> set ''0123456789abcdef''"
proof -
  define hexs where "hexs = ''0123456789abcdef''"
  have len: "length hexs = 16" by (simp add: hexs_def)
  have "hexs ! unat (x AND 15) \<in> set hexs" for x :: "128 word"
    by (rule nth_mem) (simp add: len nibble_less)
  then have "set (map (\<lambda>i. hexs ! unat (drop_bit (4 * (31 - i)) w AND 15)) [0..<32]) \<subseteq> set hexs"
    by auto
  then show ?thesis
    unfolding hex32_def hexs_def .
qed

lemma report_id_chars: "set (take 8 (str_uuid u)) \<subseteq> set ''0123456789abcdef''"
  using set_take_subset [of 8 "hex32 u"] hex32_chars [of u]
  unfolding report_id_prefix by blast

text \<open>
  Claim C6. For a request that passes validation, the response \<open>process_game_analysis\<close>
  returns has a \<open>report_id\<close>, a string of exactly 8 characters: the first 8 characters
  of \<open>str(uuid.uuid4())\<close>, all of them hexadecimal digits.
\<close>

theorem report_id_eight_characters:
  assumes "validate_fields data required_fields = Inr ()"
    and "process_game_analysis pf inp data s = (Inr r, s')"
  shows "\<exists>rid. field r ''report_id'' = Some (PStr rid) \<and> length rid = 8 \<and>
               rid = take 8 (str_uuid (uuid4 (urandom inp))) \<and>
               set rid \<subseteq> set ''0123456789abcdef''"
proof -
  from process_returns [OF assms(2)]
  have "field r ''report_id'' = Some (PStr (take 8 (str_uuid (uuid4 (urandom inp)))))"
    by auto
  moreover have "length (take 8 (str_uuid (uuid4 (urandom inp)))) = 8"
    by (simp add: report_id_prefix length_hex32)
  ultimately show ?thesis
    using report_id_chars by blast
qed

theorem report_id_eight_characters_witness:
  "\<exists>r s' rid.
      validate_fields demo_request required_fields = Inr ()
    \<and> process_game_analysis demo_platform demo_inputs demo_request demo_configured = (Inr r, s')
    \<and> field r ''report_id'' = Some (PStr rid) \<and> length rid = 8"
proof -
  from demo_returns obtain r s' where
    p: "process_game_analysis demo_platform demo_inputs demo_request demo_configured = (Inr r, s')"
    by blast
  from report_id_eight_characters [OF validate_demo_request p] validate_demo_request p
  show ?thesis by blast
qed

text \<open>
  Claim C8. For a request that passes validation, the response \<open>process_game_analysis\<close>
  returns has \<open>success\<close> true and under \<open>business_name\<close> the very value the request
  binds to \<open>business_name\<close>.
\<close>

theorem response_echoes_business_name:
  assumes "validate_fields data required_fields = Inr ()"
    and "process_game_analysis pf inp data s = (Inr r, s')"
  shows "field r ''success'' = Some (PBool True) \<and>
         (\<exists>bn. field data ''business_name'' = Some bn \<and> field r ''business_name'' = Some bn)"
  using process_returns [OF assms(2)]
  by auto

theorem response_echoes_business_name_witness:
  "\<exists>r s'.
      validate_fields demo_request required_fields = Inr ()
    \<and> process_game_analysis demo_platform demo_inputs demo_request demo_configured = (Inr r, s')
    \<and> field r ''success'' = Some (PBool True)
    \<and> field r ''business_name'' = Some (PStr ''Space Tactics'')"
proof -
  from demo_returns obtain r s' where
    p: "process_game_analysis demo_platform demo_inputs demo_request demo_configured = (Inr r, s')"
    by blast
  from response_echoes_business_name [OF validate_demo_request p] validate_demo_request p
  show ?thesis by (auto simp: demo_request_def demo_fields_def)
qed

subsection \<open>The timestamp\<close>

lemma digit_val_digit: "d < 10 \<Longrightarrow> digit_val (digit d) = Some d"
proof -
  assume "d < 10"
  then have "d \<in> {0, 1, 2, 3, 4, 5, 6, 7, 8, 9}" by auto
  then show ?thesis by (auto simp: digit_val_def digit_def)
qed

lemma dec_1: "n < 10 \<Longrightarrow> dec n = [digit n]"
  by (subst dec.simps) simp

lemma dec_2: "10 \<le> n \<Longrightarrow> n < 100 \<Longrightarrow> dec n = [digit (n div 10), digit (n mod 10)]"
  by (subst dec.simps) (simp add: dec_1)

lemma dec_3: "100 \<le> n \<Longrightarrow> n < 1000 \<Longrightarrow>
    dec n = [digit (n div 10 div 10), digit (n div 10 mod 10), digit (n mod 10)]"
  by (subst dec.simps) (simp add: dec_2)

lemma dec_4: "1000 \<le> n \<Longrightarrow> n < 10000 \<Longrightarrow>
    dec n = [digit (n div 10 div 10 div 10), digit (n div 10 div 10 mod 10),
             digit (n div 10 mod 10), digit (n mod 10)]"
  by (subst dec.simps) (simp add: dec_3)

lemma zpad2: "n < 100 \<Longrightarrow> zpad 2 n = [digit (n div 10), digit (n mod 10)]"
  by (cases "n < 10") (simp_all add: zpad_def dec_1 dec_2 digit_def)

lemma read_nat_Cons:
  "read_nat k acc (c # cs) =
     (if k = 0 then Some (acc, c # cs)
      else case digit_val c of None \<Rightarrow> None | Some d \<Rightarrow> read_nat (k - 1) (10 * acc + d) cs)"
  by (cases k) (simp_all split: option.split)

lemma read_nat_2:
  assumes "n < 100"
  shows "read_nat 2 0 (zpad 2 n @ r) = Some (n, r)"
proof -
  have "n div 10 < 10" "n mod 10 < 10" using assms by auto
  then show ?thesis
    unfolding zpad2 [OF assms] by (simp add: read_nat_Cons digit_val_digit)
qed

lemma read_nat_4:
  assumes "1000 \<le> n" "n < 10000"
  shows "read_nat 4 0 (dec n @ r) = Some (n, r)"
proof -
  have "n div 10 div 10 div 10 < 10" using assms by simp
  then show ?thesis
    unfolding dec_4 [OF assms] by (simp add: read_nat_Cons digit_val_digit)
qed

lemma read_month_name:
  assumes "1 \<le> m" "m \<le> 12"
  shows "read_month (month_name m @ CHR '' '' # r) = Some (m, CHR '' '' # r)"
proof -
  from assms have "m = 1 \<or> m = 2 \<or> m = 3 \<or> m = 4 \<or> m = 5 \<or> m = 6 \<or> m = 7 \<or> m = 8 \<or>
      m = 9 \<or> m = 10 \<or> m = 11 \<or> m = 12"
    by arith
  then show ?thesis
    by (elim disjE) (simp_all add: read_month_def month_name_def month_names_def)
qed

lemma days_in_month_le: "days_in_month y m \<le> 31"
  by (simp add: days_in_month_def)

lemma hour12_range: "1 \<le> hour12 h" "hour12 h \<le> 12"
  by (simp_all add: hour12_def less_imp_le)

lemma hour12_back:
  assumes "h < 24"
  shows "hour12 h mod 12 + (if \<not> h < 12 then 12 else 0) = h"
proof (cases "h < 12")
  case True
  then show ?thesis by (simp add: hour12_def)
next
  case False
  then have "h mod 12 = h - 12" using assms by (simp add: le_mod_geq)
  then show ?thesis using False by (simp add: hour12_def)
qed

lemma roundtrip:
  assumes "valid_datetime dt" "1000 \<le> year dt"
  shows "parse_generated_at (strftime_generated dt) = Some (dt\<lparr>second := 0, microsecond := 0\<rparr>)"
proof -
  have vd: "valid_date (year dt) (month dt) (day dt)"
    and h24: "hour dt < 24" and mi: "minute dt < 60"
    using assms by (simp_all add: valid_datetime_def)
  have d: "day dt < 100"
    using vd days_in_month_le [of "year dt" "month dt"] by (simp add: valid_date_def)
  have m: "1 \<le> month dt" "month dt \<le> 12" using vd by (simp_all add: valid_date_def)
  have y: "1000 \<le> year dt" "year dt < 10000" using vd assms by (simp_all add: valid_date_def)
  have h: "hour12 (hour dt) < 100" using hour12_range(2) [of "hour dt"] by simp
  have mi': "minute dt < 100" using mi by simp
  have h1: "Suc 0 \<le> hour12 (hour dt)" using hour12_range(1) [of "hour dt"] by simp
  define r5 where "r5 = (if hour dt < 12 then ''AM'' else ''PM'')"
  define r4 where "r4 = zpad 2 (minute dt) @ CHR '' '' # r5"
  define r3 where "r3 = zpad 2 (hour12 (hour dt)) @ CHR '':'' # r4"
  define r2 where "r2 = dec (year dt) @ CHR '' '' # CHR ''a'' # CHR ''t'' # CHR '' '' # r3"
  define r1 where "r1 = zpad 2 (day dt) @ CHR '','' # CHR '' '' # r2"
  have s: "strftime_generated dt = month_name (month dt) @ CHR '' '' # r1"
    by (simp add: strftime_generated_def r1_def r2_def r3_def r4_def r5_def)
  have p1: "read_month (strftime_generated dt) = Some (month dt, CHR '' '' # r1)"
    unfolding s by (rule read_month_name [OF m])
  have p3: "read_nat 2 0 r1 = Some (day dt, CHR '','' # CHR '' '' # r2)"
    unfolding r1_def by (rule read_nat_2 [OF d])
  have p5: "read_nat 4 0 r2 = Some (year dt, CHR '' '' # CHR ''a'' # CHR ''t'' # CHR '' '' # r3)"
    unfolding r2_def by (rule read_nat_4 [OF y])
  have p7: "read_nat 2 0 r3 = Some (hour12 (hour dt), CHR '':'' # r4)"
    unfolding r3_def by (rule read_nat_2 [OF h])
  have p9: "read_nat 2 0 r4 = Some (minute dt, CHR '' '' # r5)"
    unfolding r4_def by (rule read_nat_2 [OF mi'])
  have p11: "read_ampm r5 = Some (\<not> hour dt < 12)"
    by (simp add: r5_def read_ampm_def)
  show ?thesis
    unfolding parse_generated_at_def
    by (simp add: p1 p3 p5 p7 p9 p11 expect_def vd mi h1 hour12_range hour12_back [OF h24])
qed

lemma valid_drop_seconds:
  "valid_datetime dt \<Longrightarrow> valid_datetime (dt\<lparr>second := 0, microsecond := 0\<rparr>)"
  by (simp add: valid_datetime_def)

lemma strftime_demo: "strftime_generated (now demo_inputs) = ''November 04, 2026 at 02:05 PM''"
  by (simp add: demo_inputs_def strftime_generated_def month_name_def month_names_def zpad2
      dec_4 hour12_def digit_def)

lemma valid_demo_now: "valid_datetime (now demo_inputs) \<and> 1000 \<le> year (now demo_inputs)"
  by (simp add: demo_inputs_def valid_datetime_def valid_date_def days_in_month_def)

text \<open>
  Claim C7. For a request that passes validation, the response \<open>process_game_analysis\<close>
  returns has under \<open>generated_at\<close> the clock's reading in the pattern month name, day,
  year, hour, minute, AM or PM; read back, the string gives a valid date and time: the
  reading itself, to the minute. The clock's reading is a \<open>datetime\<close> whose year has
  four digits.
\<close>

theorem generated_at_parses_back:
  assumes "validate_fields data required_fields = Inr ()"
    and "process_game_analysis pf inp data s = (Inr r, s')"
    and "valid_datetime (now inp)" and "1000 \<le> year (now inp)"
  shows "\<exists>g dt. field r ''generated_at'' = Some (PStr g)
           \<and> g = strftime_generated (now inp)
           \<and> parse_generated_at g = Some dt
           \<and> valid_datetime dt
           \<and> dt = (now inp)\<lparr>second := 0, microsecond := 0\<rparr>"
  using process_returns [OF assms(2)] roundtrip [OF assms(3,4)] valid_drop_seconds [OF assms(3)]
  by auto

theorem generated_at_parses_back_witness:
  "\<exists>r s'.
      validate_fields demo_request required_fields = Inr ()
    \<and> process_game_analysis demo_platform demo_inputs demo_request demo_configured = (Inr r, s')
    \<and> valid_datetime (now demo_inputs) \<and> 1000 \<le> year (now demo_inputs)
    \<and> field r ''generated_at'' = Some (PStr ''November 04, 2026 at 02:05 PM'')
    \<and> parse_generated_at ''November 04, 2026 at 02:05 PM'' =
          Some \<lparr>year = 2026, month = 11, day = 4, hour = 14, minute = 5, second = 0,
                 microsecond = 0\<rparr>"
proof -
  from demo_returns obtain r s' where
    p: "process_game_analysis demo_platform demo_inputs demo_request demo_configured = (Inr r, s')"
    by blast
  have n: "valid_datetime (now demo_inputs)" "1000 \<le> year (now demo_inputs)"
    using valid_demo_now by simp_all
  have e: "(now demo_inputs)\<lparr>second := 0, microsecond := 0\<rparr> =
      \<lparr>year = 2026, month = 11, day = 4, hour = 14, minute = 5, second = 0, microsecond = 0\<rparr>"
    by (simp add: demo_inputs_def)
  from generated_at_parses_back [OF validate_demo_request p n] validate_demo_request p n
  show ?thesis unfolding strftime_demo e by blast
qed

subsection \<open>The module-level bindings\<close>

lemma print_bindings: "print pf l s = Inr s' \<Longrightarrow> bindings s' = bindings s"
  by (simp add: bindings_def print_fields)

lemma analyze_game_bindings:
  "analyze_game pf inp gd s = (x, s2) \<Longrightarrow> bindings s2 = bindings s"
  by (auto simp: analyze_game_def bindings_def Let_def
      split: option.splits sum.splits list.splits)

lemma process_bindings:
  "process_game_analysis pf inp data s = (x, s2) \<Longrightarrow> bindings s2 = bindings s"
  by (auto simp: process_game_analysis_def Let_def
      dest!: analyze_game_bindings print_bindings
      split: sum.splits prod.splits)

lemma handle_exn_bindings:
  "handle_exn pf label e s = (x, s2) \<Longrightarrow> bindings s2 = bindings s"
  by (cases e) (auto dest!: print_bindings split: sum.splits)

lemma serve_bindings: "bindings (snd (serve pf inp rq s)) = bindings s"
proof -
  obtain x s2 where r: "serve pf inp rq s = (x, s2)" by (cases "serve pf inp rq s")
  then have "bindings s2 = bindings s"
    by (cases rq)
       (auto simp: home_def api_analyze_game_def health_check_def test_endpoint_def
          test_page_def Let_def
          dest!: process_bindings handle_exn_bindings print_bindings
          split: sum.splits prod.splits if_splits)
  with r show ?thesis by simp
qed

lemma serve_all_bindings: "bindings (serve_all pf reqs s) = bindings s"
  by (induction reqs arbitrary: s) (auto simp: serve_bindings)

text \<open>
  Claim C9. \<open>process_game_analysis\<close> and every route handler leave \<open>os.environ\<close>,
  \<open>api_key\<close> and \<open>client\<close> as they found them, on every request and whatever the
  outcome; so after any sequence of requests the bindings are those of start-up, the
  client handle among them.
\<close>

theorem requests_preserve_bindings:
  "bindings (snd (process_game_analysis pf inp data s)) = bindings s
   \<and> bindings (snd (serve pf inp rq s)) = bindings s
   \<and> bindings (serve_all pf reqs s) = bindings s
   \<and> (startup pf env = Inr s0 \<longrightarrow> client (serve_all pf reqs s0) = client s0)"
proof -
  have "bindings (snd (process_game_analysis pf inp data s)) = bindings s"
    by (rule process_bindings [of pf inp data s "fst (process_game_analysis pf inp data s)"]) simp
  moreover have "client (serve_all pf reqs s0) = client s0"
    using serve_all_bindings [of pf reqs s0] by (simp add: bindings_def)
  ultimately show ?thesis
    by (simp add: serve_bindings serve_all_bindings)
qed

theorem requests_preserve_bindings_witness:
  "startup demo_platform [''OPENAI_API_KEY'' \<mapsto> ''sk-demo''] = Inr demo_configured
   \<and> client (serve_all demo_platform
        [(demo_inputs, POST_analyze_game (Inr demo_request)), (demo_inputs, POST_test),
         (demo_inputs, POST_analyze_game (Inl bad_request))]
        demo_configured) = Some (OpenAI ''sk-demo'')"
  using requests_preserve_bindings [where pf = demo_platform
      and env = "[''OPENAI_API_KEY'' \<mapsto> ''sk-demo'']" and ?s0.0 = demo_configured
      and reqs = "[(demo_inputs, POST_analyze_game (Inr demo_request)), (demo_inputs, POST_test),
         (demo_inputs, POST_analyze_game (Inl bad_request))]"]
    startup_demo_configured client_demo_configured
  by simp

subsection \<open>The root endpoint\<close>

text \<open>
  Claim C10, as the code has it. \<open>home\<close> reads OPENAI_KEY and OPENAI_API_KEY only, start-up
  also OPENAI_TOKEN. When the first two are unset or empty, OPENAI_TOKEN is bound to a
  string that is not empty, the constructor of the client raises nothing and the line of
  line 35 is printed, start-up completes and GET / reports \<open>openai_key_set\<close> false and
  \<open>client_ready\<close> true.
\<close>

theorem home_token_only:
  assumes "\<not> truthy (env ''OPENAI_KEY'')" "\<not> truthy (env ''OPENAI_API_KEY'')"
    and "env ''OPENAI_TOKEN'' = Some t" "t \<noteq> []"
    and "OpenAI_init pf t = None"
    and "stdout_write pf (check_mark @ '' OpenAI client initialized successfully'') = None"
  shows "\<exists>s0 r. startup pf env = Inr s0 \<and>
             fst (home s0) = Inr \<lparr>status = 200, body = Json r\<rparr> \<and>
             field r ''environment_check'' =
               Some (PDict [(''openai_key_set'', PBool False), (''client_ready'', PBool True)])"
  using assms
  by (simp add: home_def startup_def resolve_api_key_def py_or_def Let_def jsonify_def
      print_def)

theorem home_token_only_witness:
  "\<exists>s0 r. startup demo_platform [''OPENAI_TOKEN'' \<mapsto> ''tok''] = Inr s0 \<and>
        fst (home s0) = Inr \<lparr>status = 200, body = Json r\<rparr> \<and>
        field r ''environment_check'' =
          Some (PDict [(''openai_key_set'', PBool False), (''client_ready'', PBool True)])"
  using home_token_only [where env = "[''OPENAI_TOKEN'' \<mapsto> ''tok'']" and t = "''tok''"
      and pf = demo_platform]
  by (simp add: demo_platform_def utf8_stdout_plain check_mark_def)

text \<open>
  The counterexample to claim C10 as worded: OPENAI_TOKEN is the only variable set, to
  the empty string. Start-up takes the empty string for no key and leaves the client
  \<open>None\<close>, so GET / reports \<open>client_ready\<close> false.
\<close>

theorem home_empty_token:
  "[''OPENAI_TOKEN'' \<mapsto> ''''] ''OPENAI_TOKEN'' = Some ''''
   \<and> [''OPENAI_TOKEN'' \<mapsto> ''''] ''OPENAI_KEY'' = None
   \<and> [''OPENAI_TOKEN'' \<mapsto> ''''] ''OPENAI_API_KEY'' = None
   \<and> startup demo_platform [''OPENAI_TOKEN'' \<mapsto> ''''] = Inr demo_empty_token
   \<and> fst (home demo_empty_token) =
       Inr \<lparr>status = 200,
        body = Json (PDict
          [(''message'', PStr ''Game Dev Vizier API is running!''),
           (''status'', PStr ''healthy''),
           (''endpoints'', PDict
              [(''health'', PStr ''/api/health''),
               (''analyze'', PStr ''/api/analyze-game (POST)''),
               (''test'', PStr ''/api/test (POST)'')]),
           (''environment_check'', PDict
              [(''openai_key_set'', PBool False),
               (''client_ready'', PBool False)])])\<rparr>"
  using startup_demo_empty_token
  by (simp add: home_def py_or_def Let_def jsonify_def demo_empty_token_def)

end
